theory Spec2Isabelle
  imports Main "HOL-Library.Multiset"
begin

section \<open>JavaScript primitives used by the attendance tracker\<close>

text \<open>
  Instants are milliseconds since the epoch, as \<open>Date.now()\<close> and
  \<open>new Date(s).getTime()\<close> give them; a stored ISO text and its instant are identified.
  All quantities stay far below \<open>2^53\<close>, where \<open>Math.floor(a / b)\<close> on whole numbers with
  \<open>b > 0\<close> is the floor quotient, HOL's \<open>div\<close> on \<open>int\<close>.
\<close>

text \<open>The remainder operator \<open>a % b\<close>: it truncates, the sign follows the dividend.\<close>

definition js_rem :: "int \<Rightarrow> int \<Rightarrow> int" where
  "js_rem a b = sgn a * (\<bar>a\<bar> mod \<bar>b\<bar>)"

text \<open>\<open>!v\<close> on a value of type \<open>string | null\<close>: null and the empty text are falsy.\<close>

definition falsy_string :: "string option \<Rightarrow> bool" where
  "falsy_string v = (v = None \<or> v = Some [])"

text \<open>Truthiness of a value of type \<open>number | null\<close>: null and zero are falsy.\<close>

definition truthy_number :: "int option \<Rightarrow> bool" where
  "truthy_number v = (case v of None \<Rightarrow> False | Some n \<Rightarrow> n \<noteq> 0)"

text \<open>\<open>Number.prototype.toString()\<close> on a whole number: decimal digits, a leading minus.\<close>

definition digit_char :: "nat \<Rightarrow> char" where
  "digit_char n = ''0123456789'' ! n"

fun nat_digits :: "nat \<Rightarrow> string" where
  "nat_digits n = (if n < 10 then [digit_char n] else nat_digits (n div 10) @ [digit_char (n mod 10)])"

definition toString :: "int \<Rightarrow> string" where
  "toString i = (if i < 0 then CHR ''-'' # nat_digits (nat (- i)) else nat_digits (nat i))"

text \<open>\<open>s.padStart(n, c)\<close> with a one-character filler: nothing is cut when \<open>s\<close> is longer.\<close>

definition padStart :: "nat \<Rightarrow> char \<Rightarrow> string \<Rightarrow> string" where
  "padStart n c s = replicate (n - length s) c @ s"

section \<open>The session table\<close>

text \<open>
  A row of \<open>public.attendance_sessions\<close>, with the columns of the migration. The component's
  interface \<open>AttendanceSession\<close> names five of them; \<open>select("*")\<close> returns all.
\<close>

record attendance_session =
  session_id :: string
  user_id :: string
  date :: string
  check_in_time :: int
  check_out_time :: "int option"
  check_in_photo :: "string option"
  check_out_photo :: "string option"
  duration_minutes :: "int option"
  created_at :: int

type_synonym attendance_sessions = "attendance_session list"

text \<open>
  The query of \<open>useQuery\<close>: without a user id it returns the empty list; otherwise the rows
  of the user and day in ascending \<open>check_in_time\<close>; when the store sends no data, the
  empty list (\<open>data || []\<close>).
\<close>

definition select_sessions :: "string \<Rightarrow> string \<Rightarrow> attendance_sessions \<Rightarrow> attendance_sessions" where
  "select_sessions uid today tbl =
     sort_key check_in_time (filter (\<lambda>r. user_id r = uid \<and> date r = today) tbl)"

definition queryFn :: "string option \<Rightarrow> string \<Rightarrow> bool \<Rightarrow> attendance_sessions \<Rightarrow> attendance_sessions" where
  "queryFn user today read_error tbl =
     (case user of
        None \<Rightarrow> []
      | Some uid \<Rightarrow>
          if uid = [] then []
          else if read_error then []
          else select_sessions uid today tbl)"

text \<open>\<open>sessions.find(s => !s.check_out_time)\<close> and \<open>!!activeSession\<close>.\<close>

definition activeSession :: "attendance_sessions \<Rightarrow> attendance_session option" where
  "activeSession sessions = find (\<lambda>s. check_out_time s = None) sessions"

definition isCheckedIn :: "attendance_sessions \<Rightarrow> bool" where
  "isCheckedIn sessions = (activeSession sessions \<noteq> None)"

section \<open>Derived values of a render\<close>

text \<open>
  The reducer of \<open>totalMinutes\<close>. The clock is read once per open session during one
  render; the model takes one reading \<open>now\<close> for the pass. The column \<open>check_in_time\<close>
  is never null, so the test \<open>session.check_in_time &&\<close> always passes.
\<close>

definition total_step :: "int \<Rightarrow> int \<Rightarrow> attendance_session \<Rightarrow> int" where
  "total_step now acc session =
     (if truthy_number (duration_minutes session)
      then acc + (case duration_minutes session of Some d \<Rightarrow> d | None \<Rightarrow> 0)
      else if check_out_time session = None
      then (let start = check_in_time session in acc + (now - start) div (1000 * 60))
      else acc)"

definition totalMinutes :: "int \<Rightarrow> attendance_sessions \<Rightarrow> int" where
  "totalMinutes now sessions = foldl (total_step now) 0 sessions"

definition totalHours :: "int \<Rightarrow> attendance_sessions \<Rightarrow> int" where
  "totalHours now sessions = totalMinutes now sessions div 60"

definition remainingMinutes :: "int \<Rightarrow> attendance_sessions \<Rightarrow> int" where
  "remainingMinutes now sessions = js_rem (totalMinutes now sessions) 60"

text \<open>The text under "Today's Total".\<close>

definition todays_total :: "int \<Rightarrow> attendance_sessions \<Rightarrow> string" where
  "todays_total now sessions =
     toString (totalHours now sessions) @ ''h '' @ toString (remainingMinutes now sessions) @ ''m''"

text \<open>The callback of the one-second interval: the value given to \<open>setElapsedTime\<close>.\<close>

definition elapsed_fields :: "int \<Rightarrow> int \<Rightarrow> int \<times> int \<times> int" where
  "elapsed_fields start now =
     (let diff = now - start;
          hours = diff div (1000 * 60 * 60);
          minutes = js_rem diff (1000 * 60 * 60) div (1000 * 60);
          seconds = js_rem diff (1000 * 60) div 1000
      in (hours, minutes, seconds))"

definition elapsedTime :: "attendance_session \<Rightarrow> int \<Rightarrow> string" where
  "elapsedTime active now =
     (case elapsed_fields (check_in_time active) now of
        (hours, minutes, seconds) \<Rightarrow>
          padStart 2 (CHR ''0'') (toString hours) @ '':'' @
          padStart 2 (CHR ''0'') (toString minutes) @ '':'' @
          padStart 2 (CHR ''0'') (toString seconds))"

text \<open>
  One entry of the list "Today's Sessions": its label, whether the closed icon is shown, and
  the cell on the right. The clock times of the entry depend on the local time zone and are
  left out.
\<close>

definition duration_cell :: "attendance_session \<Rightarrow> string" where
  "duration_cell session =
     (if truthy_number (duration_minutes session)
      then (case duration_minutes session of
              Some d \<Rightarrow> toString (d div 60) @ ''h '' @ toString (js_rem d 60) @ ''m''
            | None \<Rightarrow> [])
      else ''In Progress'')"

definition session_entry :: "nat \<Rightarrow> attendance_session \<Rightarrow> string \<times> bool \<times> string" where
  "session_entry index session =
     (''Session '' @ toString (int index + 1), check_out_time session \<noteq> None, duration_cell session)"

definition session_entries :: "attendance_sessions \<Rightarrow> (string \<times> bool \<times> string) list" where
  "session_entries sessions = map (\<lambda>(index, session). session_entry index session) (enumerate 0 sessions)"

section \<open>The component and its handlers\<close>

datatype capture_type = check_in | check_out

datatype toast = toast_success string | toast_error string

text \<open>The state of the component that the handlers read and set.\<close>

record tracker =
  sessions :: attendance_sessions
  showCamera :: bool
  captureType :: capture_type
  capturedImage :: "string option"

text \<open>
  What one run of a handler takes from outside: the signed-in user (\<open>user?.id\<close>), the day of
  the render, the reading of \<open>Date.now()\<close>, the reading of \<open>new Date()\<close> that is stored as
  text, the identifier and creation instant the table's defaults give a new row, and whether
  the store answers the write, and the read after it, with an error.
\<close>

record environment =
  auth_user :: "string option"
  today :: string
  date_now :: int
  new_date :: int
  gen_random_uuid :: string
  db_now :: int
  write_error :: bool
  read_error :: bool

definition openCamera :: "capture_type \<Rightarrow> tracker \<Rightarrow> tracker" where
  "openCamera type c = c\<lparr>captureType := type, capturedImage := None, showCamera := True\<rparr>"

text \<open>The button of the tracker card: \<open>openCamera(isCheckedIn ? "check_out" : "check_in")\<close>.\<close>

definition attendance_button :: "tracker \<Rightarrow> tracker" where
  "attendance_button c = openCamera (if isCheckedIn (sessions c) then check_out else check_in) c"

text \<open>\<open>capturePhoto\<close>: the image is there when the video, the canvas and its context are.\<close>

definition capturePhoto :: "string option \<Rightarrow> tracker \<Rightarrow> tracker" where
  "capturePhoto imageData c =
     (case imageData of None \<Rightarrow> c | Some d \<Rightarrow> c\<lparr>capturedImage := Some d\<rparr>)"

definition retakePhoto :: "tracker \<Rightarrow> tracker" where
  "retakePhoto c = c\<lparr>capturedImage := None\<rparr>"

text \<open>
  The two writes. An insert adds one row, the columns it does not name taking the defaults of
  the table; an update with \<open>eq("id", sid)\<close> sets the three columns on the rows of that id.
\<close>

definition insert_session :: "environment \<Rightarrow> string \<Rightarrow> string option \<Rightarrow> attendance_sessions \<Rightarrow> attendance_sessions" where
  "insert_session e uid photo tbl =
     tbl @ [\<lparr>session_id = gen_random_uuid e, user_id = uid, date = today e,
             check_in_time = new_date e, check_out_time = None, check_in_photo = photo,
             check_out_photo = None, duration_minutes = None, created_at = db_now e\<rparr>]"

definition close_session :: "int \<Rightarrow> string option \<Rightarrow> int \<Rightarrow> attendance_session \<Rightarrow> attendance_session" where
  "close_session out photo dur r =
     r\<lparr>check_out_time := Some out, check_out_photo := photo, duration_minutes := Some dur\<rparr>"

definition update_session :: "string \<Rightarrow> int \<Rightarrow> string option \<Rightarrow> int \<Rightarrow> attendance_sessions \<Rightarrow> attendance_sessions" where
  "update_session sid out photo dur tbl =
     map (\<lambda>r. if session_id r = sid then close_session out photo dur r else r) tbl"

text \<open>
  After a confirmed write: the dialog closes, the image is dropped, the list is read again.
  The invalidated query \<open>today-attendance\<close> belongs to another view.
\<close>

definition saved :: "environment \<Rightarrow> tracker \<Rightarrow> attendance_sessions \<Rightarrow> tracker" where
  "saved e c tbl =
     c\<lparr>showCamera := False, capturedImage := None,
       sessions := queryFn (auth_user e) (today e) (read_error e) tbl\<rparr>"

text \<open>
  \<open>confirmPhoto\<close>, on the component and the table: the toast shown (none on a silent
  return), the component and the table afterwards. A write the store answers with an error
  leaves the table as it was; the handler throws and the \<open>catch\<close> shows the failure toast.
\<close>

definition confirmPhoto :: "environment \<Rightarrow> tracker \<times> attendance_sessions \<Rightarrow> toast option \<times> tracker \<times> attendance_sessions" where
  "confirmPhoto e st =
     (case st of (c, tbl) \<Rightarrow>
        if falsy_string (auth_user e) \<or> falsy_string (capturedImage c) then (None, c, tbl)
        else
          (case captureType c of
             check_in \<Rightarrow>
               if write_error e then (Some (toast_error ''Failed to save attendance''), c, tbl)
               else
                 (let tbl' = insert_session e (case auth_user e of Some uid \<Rightarrow> uid | None \<Rightarrow> [])
                                (capturedImage c) tbl
                  in (Some (toast_success ''Checked in successfully!''), saved e c tbl', tbl'))
           | check_out \<Rightarrow>
               (case activeSession (sessions c) of
                  None \<Rightarrow> (None, c, tbl)
                | Some active \<Rightarrow>
                    (let checkInTime = check_in_time active;
                         now = date_now e;
                         durationMinutes = (now - checkInTime) div (1000 * 60)
                     in if write_error e
                        then (Some (toast_error ''Failed to save attendance''), c, tbl)
                        else
                          (let tbl' = update_session (session_id active) (new_date e)
                                         (capturedImage c) durationMinutes tbl
                           in (Some (toast_success ''Checked out successfully!''),
                               saved e c tbl', tbl'))))))"

text \<open>The open rows of a user and day in the table.\<close>

definition open_sessions :: "string \<Rightarrow> string \<Rightarrow> attendance_sessions \<Rightarrow> attendance_sessions" where
  "open_sessions uid day tbl =
     filter (\<lambda>r. user_id r = uid \<and> date r = day \<and> check_out_time r = None) tbl"

text \<open>
  The way the page reaches \<open>confirmPhoto\<close>: the button opens the camera for the
  operation the cached list calls for, a photo is captured, and it is confirmed.
\<close>

definition press_and_confirm :: "environment \<Rightarrow> string option \<Rightarrow> tracker \<times> attendance_sessions \<Rightarrow> toast option \<times> tracker \<times> attendance_sessions" where
  "press_and_confirm e imageData st =
     (case st of (c, tbl) \<Rightarrow> confirmPhoto e (capturePhoto imageData (attendance_button c), tbl))"

section \<open>Concrete days\<close>

definition example_env :: "string \<Rightarrow> int \<Rightarrow> environment" where
  "example_env sid t =
     \<lparr>auth_user = Some ''u1'', today = ''2026-01-11'', date_now = t, new_date = t,
      gen_random_uuid = sid, db_now = t, write_error = False, read_error = False\<rparr>"

definition example_session :: "string \<Rightarrow> int \<Rightarrow> int option \<Rightarrow> int option \<Rightarrow> attendance_session" where
  "example_session sid t_in t_out dur =
     \<lparr>session_id = sid, user_id = ''u1'', date = ''2026-01-11'', check_in_time = t_in,
      check_out_time = t_out, check_in_photo = Some ''in.jpg'',
      check_out_photo = (case t_out of None \<Rightarrow> None | Some t \<Rightarrow> Some ''out.jpg''),
      duration_minutes = dur, created_at = t_in\<rparr>"

definition example_tracker :: "capture_type \<Rightarrow> attendance_sessions \<Rightarrow> tracker" where
  "example_tracker type ss =
     \<lparr>sessions = ss, showCamera = True, captureType = type, capturedImage = Some ''out.jpg''\<rparr>"

text \<open>A fresh page on an empty table, and a check-in at \<open>t1\<close> followed by a check-out at \<open>t2\<close>.\<close>

definition day_start :: "tracker \<times> attendance_sessions" where
  "day_start = (\<lparr>sessions = [], showCamera = False, captureType = check_in, capturedImage = None\<rparr>, [])"

definition in_then_out :: "int \<Rightarrow> int \<Rightarrow> toast option \<times> tracker \<times> attendance_sessions" where
  "in_then_out t1 t2 =
     press_and_confirm (example_env ''s2'' t2) (Some ''out.jpg'')
       (snd (press_and_confirm (example_env ''s1'' t1) (Some ''in.jpg'') day_start))"

section \<open>Facts about the primitives\<close>

lemma nat_digits_lt10: "n < 10 \<Longrightarrow> nat_digits n = [digit_char n]"
  by simp

lemma nat_digits_ge10: "10 \<le> n \<Longrightarrow> nat_digits n = nat_digits (n div 10) @ [digit_char (n mod 10)]"
  by (subst nat_digits.simps) simp

declare nat_digits.simps [simp del]

lemma toString_0: "toString 0 = ''0''"
  by (simp add: toString_def digit_char_def nat_digits_lt10)

lemma toString_1: "toString 1 = ''1''"
  by (simp add: toString_def digit_char_def nat_digits_lt10)

lemma length_two_digits:
  assumes "0 \<le> n" and "n < 100"
  shows "length (padStart 2 c (toString n)) = 2"
proof (cases "nat n < 10")
  case True
  then show ?thesis using assms by (simp add: padStart_def toString_def nat_digits_lt10)
next
  case False
  then have "nat n div 10 < 10" using assms by simp
  then show ?thesis using False assms
    by (simp add: padStart_def toString_def nat_digits_ge10 nat_digits_lt10)
qed

lemma js_rem_nonneg: "0 \<le> a \<Longrightarrow> js_rem a b = a mod \<bar>b\<bar>"
  by (cases "a = 0") (simp_all add: js_rem_def)

lemma mod_mult_div:
  fixes a b c :: int
  assumes "0 < b" and "0 \<le> c"
  shows "(a mod (b * c)) div b = (a div b) mod c"
  using assms by (simp add: zmod_zmult2_eq)

lemma elapsed_decomp:
  fixes d :: int
  shows "(d div 3600000) * 3600 + ((d mod 3600000) div 60000) * 60 + (d mod 60000) div 1000
         = d div 1000"
proof -
  have s: "(d mod 60000) div 1000 = (d div 1000) mod 60"
    using mod_mult_div [of 1000 60 d] by simp
  have m: "(d mod 3600000) div 60000 = (d div 60000) mod 60"
    using mod_mult_div [of 60000 60 d] by simp
  have h: "d div 3600000 = (d div 60000) div 60"
    using zdiv_zmult2_eq [of 60 d 60000] by simp
  have p: "d div 60000 = (d div 1000) div 60"
    using zdiv_zmult2_eq [of 60 d 1000] by simp
  show ?thesis unfolding s m h p by presburger
qed

lemma elapsed_fields_nonneg:
  assumes "start \<le> now"
  shows "elapsed_fields start now =
           ((now - start) div 3600000, (now - start) mod 3600000 div 60000, (now - start) mod 60000 div 1000)"
  using assms by (simp add: elapsed_fields_def js_rem_nonneg Let_def)

lemma js_rem_neg: "a < 0 \<Longrightarrow> js_rem a b = - ((- a) mod \<bar>b\<bar>)"
  by (simp add: js_rem_def)

lemma elapsed_fields_behind:
  assumes "now < start"
  shows "elapsed_fields start now =
           ((now - start) div 3600000,
            (- ((start - now) mod 3600000)) div 60000,
            (- ((start - now) mod 60000)) div 1000)"
  using assms by (simp add: elapsed_fields_def js_rem_neg Let_def)

lemma duration_cell_nonzero:
  "duration_minutes s = Some d \<Longrightarrow> d \<noteq> 0 \<Longrightarrow>
   duration_cell s = toString (d div 60) @ ''h '' @ toString (js_rem d 60) @ ''m''"
  by (simp add: duration_cell_def truthy_number_def)

lemma entries_labels:
  "map fst (session_entries ss) = map (\<lambda>i. ''Session '' @ toString (int i + 1)) [0..<length ss]"
  by (rule nth_equalityI) (simp_all add: session_entries_def session_entry_def nth_enumerate_eq)

lemma mset_queryFn:
  assumes "uid \<noteq> []"
  shows "mset (queryFn (Some uid) d False tbl) = mset (filter (\<lambda>r. user_id r = uid \<and> date r = d) tbl)"
  using assms by (simp add: queryFn_def select_sessions_def)

lemma entries_cells:
  "map (\<lambda>entry. snd (snd entry)) (session_entries ss) = map duration_cell ss"
  by (rule nth_equalityI) (simp_all add: session_entries_def session_entry_def nth_enumerate_eq)

lemma entries_icons:
  "map (\<lambda>entry. fst (snd entry)) (session_entries ss) = map (\<lambda>s. check_out_time s \<noteq> None) ss"
  by (rule nth_equalityI) (simp_all add: session_entries_def session_entry_def nth_enumerate_eq)

section \<open>Facts about the handlers\<close>

lemmas flow_defs = press_and_confirm_def attendance_button_def openCamera_def capturePhoto_def
  isCheckedIn_def activeSession_def confirmPhoto_def falsy_string_def insert_session_def
  update_session_def close_session_def saved_def queryFn_def select_sessions_def Let_def

lemmas example_defs = in_then_out_def day_start_def example_env_def example_session_def example_tracker_def

lemma confirmPhoto_check_out:
  assumes "\<not> falsy_string (auth_user e)" and "\<not> falsy_string (capturedImage c)"
    and "captureType c = check_out" and "activeSession (sessions c) = Some a"
    and "\<not> write_error e"
  shows "confirmPhoto e (c, tbl) =
           (Some (toast_success ''Checked out successfully!''),
            saved e c (update_session (session_id a) (new_date e) (capturedImage c)
                         ((date_now e - check_in_time a) div 60000) tbl),
            update_session (session_id a) (new_date e) (capturedImage c)
              ((date_now e - check_in_time a) div 60000) tbl)"
  using assms by (simp add: confirmPhoto_def Let_def)

lemma confirmPhoto_check_in:
  assumes "auth_user e = Some uid" and "uid \<noteq> []" and "\<not> falsy_string (capturedImage c)"
    and "captureType c = check_in" and "\<not> write_error e"
  shows "confirmPhoto e (c, tbl) =
           (Some (toast_success ''Checked in successfully!''),
            saved e c (insert_session e uid (capturedImage c) tbl),
            insert_session e uid (capturedImage c) tbl)"
  using assms by (simp add: confirmPhoto_def Let_def falsy_string_def)

lemma confirmPhoto_table_cases:
  "snd (snd (confirmPhoto e (c, tbl))) = tbl
   \<or> (\<exists>uid. snd (snd (confirmPhoto e (c, tbl))) = insert_session e uid (capturedImage c) tbl)
   \<or> (\<exists>a. activeSession (sessions c) = Some a \<and>
         snd (snd (confirmPhoto e (c, tbl))) =
           update_session (session_id a) (new_date e) (capturedImage c)
             ((date_now e - check_in_time a) div 60000) tbl)"
  by (auto simp add: confirmPhoto_def Let_def split: capture_type.splits option.splits)

lemma floor_minutes_nonneg: "(0 \<le> (t - s) div (60000::int)) = (s \<le> t)"
  by (simp add: pos_imp_zdiv_nonneg_iff)

lemma foldl_total_step:
  "foldl (total_step now) acc ss = acc + sum_list (map (total_step now 0) ss)"
proof (induction ss arbitrary: acc)
  case Nil
  show ?case by simp
next
  case (Cons s ss)
  have "total_step now acc s = acc + total_step now 0 s"
    by (simp add: total_step_def Let_def)
  then show ?case using Cons.IH [of "total_step now acc s"] Cons.IH [of "total_step now 0 s"]
    by simp
qed

lemma total_split:
  assumes "\<forall>s \<in> set ss. check_out_time s = None \<longrightarrow> duration_minutes s = None"
  shows "sum_list (map (total_step now 0) ss) =
           sum_list (map (\<lambda>s. case duration_minutes s of Some d \<Rightarrow> d | None \<Rightarrow> 0)
                      (filter (\<lambda>s. check_out_time s \<noteq> None) ss))
         + sum_list (map (\<lambda>s. (now - check_in_time s) div 60000)
                      (filter (\<lambda>s. check_out_time s = None) ss))"
  using assms
proof (induction ss)
  case Nil
  show ?case by simp
next
  case (Cons s ss)
  then show ?case
    by (cases "duration_minutes s") (auto simp add: total_step_def truthy_number_def Let_def)
qed

lemma active_none_iff:
  "(activeSession (select_sessions uid day tbl) = None) = (open_sessions uid day tbl = [])"
  by (auto simp add: activeSession_def select_sessions_def open_sessions_def find_None_iff
        filter_empty_conv)

lemma open_sessions_insert:
  "open_sessions uid (today e) (insert_session e uid photo tbl) =
     open_sessions uid (today e) tbl @
       [\<lparr>session_id = gen_random_uuid e, user_id = uid, date = today e,
         check_in_time = new_date e, check_out_time = None, check_in_photo = photo,
         check_out_photo = None, duration_minutes = None, created_at = db_now e\<rparr>]"
  by (simp add: open_sessions_def insert_session_def)

lemma open_sessions_update_le:
  "length (open_sessions uid day (update_session sid out photo dur tbl))
     \<le> length (open_sessions uid day tbl)"
  by (induction tbl) (auto simp add: open_sessions_def update_session_def close_session_def)

lemma active_first_open:
  assumes "sorted (map check_in_time ss)" and "activeSession ss = Some a"
  shows "a \<in> set ss \<and> check_out_time a = None
         \<and> (\<forall>s \<in> set ss. check_out_time s = None \<longrightarrow> check_in_time a \<le> check_in_time s)"
proof -
  from assms(2) obtain i where i: "i < length ss" "check_out_time (ss ! i) = None" "a = ss ! i"
    and first: "\<forall>j<i. check_out_time (ss ! j) \<noteq> None"
    by (auto simp add: activeSession_def find_Some_iff)
  have "check_in_time a \<le> check_in_time s" if s: "s \<in> set ss" "check_out_time s = None" for s
  proof -
    from s(1) obtain k where k: "k < length ss" "s = ss ! k"
      by (auto simp add: in_set_conv_nth)
    with s(2) first have "i \<le> k" by (metis not_le_imp_less)
    then have "map check_in_time ss ! i \<le> map check_in_time ss ! k"
      using assms(1) k(1) by (simp add: sorted_iff_nth_mono del: nth_map)
    then show ?thesis using i k \<open>i \<le> k\<close> by simp
  qed
  then show ?thesis using i by auto
qed

lemma update_session_distinct:
  assumes "distinct (map session_id tbl)" and "i < length tbl"
  shows "update_session (session_id (tbl ! i)) out photo dur tbl =
           tbl[i := close_session out photo dur (tbl ! i)]"
proof (rule nth_equalityI)
  show "length (update_session (session_id (tbl ! i)) out photo dur tbl) =
          length (tbl[i := close_session out photo dur (tbl ! i)])"
    by (simp add: update_session_def)
next
  fix j
  assume "j < length (update_session (session_id (tbl ! i)) out photo dur tbl)"
  then have j: "j < length tbl" by (simp add: update_session_def)
  have "(session_id (tbl ! j) = session_id (tbl ! i)) = (j = i)"
    using nth_eq_iff_index_eq [OF assms(1), of j i] j assms(2) by simp
  then show "update_session (session_id (tbl ! i)) out photo dur tbl ! j =
               tbl[i := close_session out photo dur (tbl ! i)] ! j"
    using j assms(2) by (auto simp add: update_session_def nth_list_update)
qed

lemma confirmPhoto_table_check_in:
  assumes "captureType c = check_in" and "auth_user e = Some uid"
  shows "snd (snd (confirmPhoto e (c, tbl))) = tbl
         \<or> snd (snd (confirmPhoto e (c, tbl))) = insert_session e uid (capturedImage c) tbl"
  using assms by (simp add: confirmPhoto_def Let_def)

lemma confirmPhoto_table_check_out:
  assumes "captureType c = check_out"
  shows "snd (snd (confirmPhoto e (c, tbl))) = tbl
         \<or> (\<exists>sid out photo dur. snd (snd (confirmPhoto e (c, tbl))) = update_session sid out photo dur tbl)"
  using assms by (auto simp add: confirmPhoto_def Let_def split: option.splits)

lemma button_capture:
  "sessions (capturePhoto imageData (attendance_button c)) = sessions c
   \<and> captureType (capturePhoto imageData (attendance_button c)) =
       (if isCheckedIn (sessions c) then check_out else check_in)"
  by (simp add: capturePhoto_def attendance_button_def openCamera_def split: option.splits)

lemma total_split_general:
  "sum_list (map (total_step now 0) ss) =
     sum_list (map (\<lambda>s. case duration_minutes s of Some d \<Rightarrow> d | None \<Rightarrow> 0)
                (filter (\<lambda>s. truthy_number (duration_minutes s)) ss))
   + sum_list (map (\<lambda>s. (now - check_in_time s) div 60000)
                (filter (\<lambda>s. \<not> truthy_number (duration_minutes s) \<and> check_out_time s = None) ss))"
  by (induction ss) (auto simp add: total_step_def Let_def)

lemma update_session_ids: "map session_id (update_session sid out photo dur tbl) = map session_id tbl"
  by (induction tbl) (simp_all add: update_session_def close_session_def)

lemma update_session_other:
  assumes "i < length tbl" and "session_id (tbl ! i) \<noteq> sid"
  shows "update_session sid out photo dur tbl ! i = tbl ! i"
  using assms by (simp add: update_session_def)

section \<open>Check-out without an open session\<close>

text \<open>
  C4, as the code decides it: a check-out is turned away on the session list the component
  holds. When that list shows no open session, \<open>confirmPhoto\<close> returns silently: no toast,
  the component unchanged, and the table unchanged. This is so in particular when the list is
  the table's list of the user and day and the table holds no open session of that user and
  day. In every case a check-out creates no row, and the only rows it can change are those
  with the identifier of the session the list shows as active.
\<close>

theorem C4_check_out_without_open_session:
  assumes "captureType c = check_out"
  shows "(activeSession (sessions c) = None \<longrightarrow> confirmPhoto e (c, tbl) = (None, c, tbl))
         \<and> (sessions c = select_sessions uid day tbl \<and> open_sessions uid day tbl = [] \<longrightarrow>
              confirmPhoto e (c, tbl) = (None, c, tbl))
         \<and> map session_id (snd (snd (confirmPhoto e (c, tbl)))) = map session_id tbl
         \<and> (\<forall>i<length tbl.
               (\<forall>a. activeSession (sessions c) = Some a \<longrightarrow> session_id (tbl ! i) \<noteq> session_id a)
               \<longrightarrow> snd (snd (confirmPhoto e (c, tbl))) ! i = tbl ! i)"
proof (intro conjI impI allI)
  assume "activeSession (sessions c) = None"
  then show "confirmPhoto e (c, tbl) = (None, c, tbl)"
    using assms by (simp add: confirmPhoto_def)
next
  assume "sessions c = select_sessions uid day tbl \<and> open_sessions uid day tbl = []"
  then have "activeSession (sessions c) = None"
    by (simp add: active_none_iff)
  then show "confirmPhoto e (c, tbl) = (None, c, tbl)"
    using assms by (simp add: confirmPhoto_def)
next
  show "map session_id (snd (snd (confirmPhoto e (c, tbl)))) = map session_id tbl"
    using assms
    by (auto simp add: confirmPhoto_def Let_def update_session_ids split: option.splits)
next
  fix i
  assume i: "i < length tbl"
    and other: "\<forall>a. activeSession (sessions c) = Some a \<longrightarrow> session_id (tbl ! i) \<noteq> session_id a"
  show "snd (snd (confirmPhoto e (c, tbl))) ! i = tbl ! i"
    using assms i other
    by (auto simp add: confirmPhoto_def Let_def update_session_other split: option.splits)
qed

theorem C4_check_out_without_open_session_witness:
  "captureType (example_tracker check_out [example_session ''s1'' 0 (Some 60000) (Some 1)]) = check_out
   \<and> activeSession (sessions (example_tracker check_out [example_session ''s1'' 0 (Some 60000) (Some 1)])) = None
   \<and> sessions (example_tracker check_out [example_session ''s1'' 0 (Some 60000) (Some 1)])
       = select_sessions ''u1'' ''2026-01-11'' [example_session ''s1'' 0 (Some 60000) (Some 1)]
   \<and> open_sessions ''u1'' ''2026-01-11'' [example_session ''s1'' 0 (Some 60000) (Some 1)] = []
   \<and> confirmPhoto (example_env ''s2'' 120000)
        (example_tracker check_out [example_session ''s1'' 0 (Some 60000) (Some 1)],
         [example_session ''s1'' 0 (Some 60000) (Some 1)])
      = (None, example_tracker check_out [example_session ''s1'' 0 (Some 60000) (Some 1)],
         [example_session ''s1'' 0 (Some 60000) (Some 1)])
   \<and> snd (snd (confirmPhoto (example_env ''s3'' 7200000)
        (example_tracker check_out [example_session ''s2'' 3600000 None None],
         [example_session ''s1'' 0 (Some 60000) (Some 1), example_session ''s2'' 3600000 None None])))
      = [example_session ''s1'' 0 (Some 60000) (Some 1), example_session ''s2'' 3600000 (Some 7200000) (Some 60)]"
  using C4_check_out_without_open_session
          [of "example_tracker check_out [example_session ''s1'' 0 (Some 60000) (Some 1)]"
              "example_env ''s2'' 120000" "[example_session ''s1'' 0 (Some 60000) (Some 1)]"
              "''u1''" "''2026-01-11''"]
    C4_check_out_without_open_session
          [of "example_tracker check_out [example_session ''s2'' 3600000 None None]"
              "example_env ''s3'' 7200000"
              "[example_session ''s1'' 0 (Some 60000) (Some 1), example_session ''s2'' 3600000 None None]"
              "''u1''" "''2026-01-11''"]
  by (simp add: flow_defs example_defs open_sessions_def)

text \<open>
  A list that still shows session s1 as open, on a table where s1 was closed after one minute
  and no session is open: the check-out succeeds and overwrites the closed row with a
  check-out two hours after the check-in and 120 minutes.
\<close>

theorem C4_stale_list_counterexample:
  "open_sessions ''u1'' ''2026-01-11'' [example_session ''s1'' 0 (Some 60000) (Some 1)] = []
   \<and> confirmPhoto (example_env ''s2'' 7200000)
        (example_tracker check_out [example_session ''s1'' 0 None None],
         [example_session ''s1'' 0 (Some 60000) (Some 1)])
      = (Some (toast_success ''Checked out successfully!''),
         \<lparr>sessions = [example_session ''s1'' 0 (Some 7200000) (Some 120)], showCamera = False,
          captureType = check_out, capturedImage = None\<rparr>,
         [example_session ''s1'' 0 (Some 7200000) (Some 120)])"
  by (simp add: flow_defs example_defs open_sessions_def)

section \<open>The elapsed-time display\<close>

text \<open>
  C6, as the callback computes it: for an open session checked in at \<open>T\<close> and a clock
  reading now at or after \<open>T\<close>, the text is hours:minutes:seconds with hours =
  floor(diff / 3,600,000), minutes = floor((diff mod 3,600,000) / 60,000) and seconds =
  floor((diff mod 60,000) / 1,000) of diff = now - T, each padded with zeros to at least two
  characters; minutes and seconds lie in 0..59, the fields add up to the whole seconds
  elapsed, and below one hundred hours the text has the eight characters of HH:MM:SS. At
  \<open>T\<close> it is 00:00:00, at \<open>T\<close> + 60 s it is 00:01:00. For a clock reading before
  \<open>T\<close> the remainder \<open>%\<close> keeps the sign of diff: the hours are negative and the
  minutes and seconds are floor(-((T - now) mod 3,600,000) / 60,000) and
  floor(-((T - now) mod 60,000) / 1,000), at most 0.
\<close>

theorem C6_elapsed_display:
  "(check_in_time a \<le> now \<longrightarrow>
        elapsedTime a now =
          padStart 2 (CHR ''0'') (toString ((now - check_in_time a) div 3600000)) @ '':'' @
          padStart 2 (CHR ''0'') (toString ((now - check_in_time a) mod 3600000 div 60000)) @ '':'' @
          padStart 2 (CHR ''0'') (toString ((now - check_in_time a) mod 60000 div 1000))
        \<and> 0 \<le> (now - check_in_time a) div 3600000
        \<and> 0 \<le> (now - check_in_time a) mod 3600000 div 60000
        \<and> (now - check_in_time a) mod 3600000 div 60000 < 60
        \<and> 0 \<le> (now - check_in_time a) mod 60000 div 1000
        \<and> (now - check_in_time a) mod 60000 div 1000 < 60
        \<and> (now - check_in_time a) div 3600000 * 3600
            + (now - check_in_time a) mod 3600000 div 60000 * 60
            + (now - check_in_time a) mod 60000 div 1000 = (now - check_in_time a) div 1000
        \<and> (now - check_in_time a < 360000000 \<longrightarrow> length (elapsedTime a now) = 8))
   \<and> (now < check_in_time a \<longrightarrow>
        elapsedTime a now =
          padStart 2 (CHR ''0'') (toString ((now - check_in_time a) div 3600000)) @ '':'' @
          padStart 2 (CHR ''0'') (toString ((- ((check_in_time a - now) mod 3600000)) div 60000)) @ '':'' @
          padStart 2 (CHR ''0'') (toString ((- ((check_in_time a - now) mod 60000)) div 1000))
        \<and> (now - check_in_time a) div 3600000 < 0
        \<and> (- ((check_in_time a - now) mod 3600000)) div 60000 \<le> 0
        \<and> (- ((check_in_time a - now) mod 60000)) div 1000 \<le> 0)
   \<and> elapsedTime a (check_in_time a) = ''00:00:00''
   \<and> elapsedTime a (check_in_time a + 60000) = ''00:01:00''"
proof (intro conjI impI)
  show "elapsedTime a (check_in_time a) = ''00:00:00''"
    by (simp add: elapsedTime_def elapsed_fields_def Let_def js_rem_def padStart_def toString_0)
  show "elapsedTime a (check_in_time a + 60000) = ''00:01:00''"
    by (simp add: elapsedTime_def elapsed_fields_def Let_def js_rem_def padStart_def toString_0 toString_1)
next
  assume le: "check_in_time a \<le> now"
  then show "elapsedTime a now =
          padStart 2 (CHR ''0'') (toString ((now - check_in_time a) div 3600000)) @ '':'' @
          padStart 2 (CHR ''0'') (toString ((now - check_in_time a) mod 3600000 div 60000)) @ '':'' @
          padStart 2 (CHR ''0'') (toString ((now - check_in_time a) mod 60000 div 1000))"
    by (simp add: elapsedTime_def elapsed_fields_nonneg)
  from le show "0 \<le> (now - check_in_time a) div 3600000" by simp
  show "0 \<le> (now - check_in_time a) mod 3600000 div 60000" by simp
  show "(now - check_in_time a) mod 3600000 div 60000 < 60" by simp
  show "0 \<le> (now - check_in_time a) mod 60000 div 1000" by simp
  show "(now - check_in_time a) mod 60000 div 1000 < 60" by simp
  show "(now - check_in_time a) div 3600000 * 3600
            + (now - check_in_time a) mod 3600000 div 60000 * 60
            + (now - check_in_time a) mod 60000 div 1000 = (now - check_in_time a) div 1000"
    by (rule elapsed_decomp)
  assume lt: "now - check_in_time a < 360000000"
  have h: "(now - check_in_time a) div 3600000 < 100" using lt by simp
  have m: "(now - check_in_time a) mod 3600000 div 60000 < 100" by simp
  have s: "(now - check_in_time a) mod 60000 div 1000 < 100" by simp
  have h0: "0 \<le> (now - check_in_time a) div 3600000" using le by simp
  show "length (elapsedTime a now) = 8"
    using le length_two_digits [OF h0 h] length_two_digits [OF _ m] length_two_digits [OF _ s]
    by (simp add: elapsedTime_def elapsed_fields_nonneg)
next
  assume behind: "now < check_in_time a"
  then show "elapsedTime a now =
          padStart 2 (CHR ''0'') (toString ((now - check_in_time a) div 3600000)) @ '':'' @
          padStart 2 (CHR ''0'') (toString ((- ((check_in_time a - now) mod 3600000)) div 60000)) @ '':'' @
          padStart 2 (CHR ''0'') (toString ((- ((check_in_time a - now) mod 60000)) div 1000))"
    by (simp add: elapsedTime_def elapsed_fields_behind)
  from behind have "now - check_in_time a < 0" by simp
  then show "(now - check_in_time a) div 3600000 < 0"
    by (simp add: div_neg_pos_less0)
  have "0 \<le> (check_in_time a - now) mod 3600000" by simp
  then show "(- ((check_in_time a - now) mod 3600000)) div 60000 \<le> 0"
    by (simp add: div_nonpos_pos_le0)
  have "0 \<le> (check_in_time a - now) mod 60000" by simp
  then show "(- ((check_in_time a - now) mod 60000)) div 1000 \<le> 0"
    by (simp add: div_nonpos_pos_le0)
qed

theorem C6_elapsed_display_witness:
  "check_in_time (example_session ''s1'' 1000 None None) \<le> 3726000
   \<and> elapsedTime (example_session ''s1'' 1000 None None) 3726000 = ''01:02:05''
   \<and> length (elapsedTime (example_session ''s1'' 1000 None None) 3726000) = 8
   \<and> 500 < check_in_time (example_session ''s2'' 62000 None None)
   \<and> elapsedTime (example_session ''s2'' 62000 None None) 500 = ''-1:-2:-2''"
  using C6_elapsed_display [of "example_session ''s1'' 1000 None None" 3726000]
    C6_elapsed_display [of "example_session ''s2'' 62000 None None" 500]
  by (simp add: example_session_def padStart_def toString_def nat_digits_lt10 nat_digits_ge10
        digit_char_def)

text \<open>
  A clock 1.5 s behind the check-in shows -1:-1:-2, where floor and the mathematical remainder
  give the fields -1, 59 and 58; at one hundred hours the hours field has three digits.
\<close>

theorem C6_clock_behind_counterexample:
  "elapsedTime (example_session ''s1'' 2500 None None) 1000 = ''-1:-1:-2''
   \<and> (((1000::int) - 2500) div 3600000, ((1000::int) - 2500) mod 3600000 div 60000,
        ((1000::int) - 2500) mod 60000 div 1000) = (- 1, 59, 58)
   \<and> elapsedTime (example_session ''s1'' 0 None None) 360000000 = ''100:00:00''"
  by (simp add: elapsedTime_def elapsed_fields_def js_rem_def Let_def example_session_def
        padStart_def toString_def nat_digits_lt10 nat_digits_ge10 digit_char_def)

section \<open>The duration cell of a closed session\<close>

text \<open>
  C7, at the stored value 0: a check-in at instant 0 and a check-out 30 seconds later, both
  through the page, store a closed row with \<open>duration_minutes = 0\<close>; its entry in the list
  carries the closed icon and the cell "In Progress", not "0h 0m".
\<close>

theorem C7_closed_zero_minutes_in_progress:
  "snd (snd (in_then_out 0 30000)) = [example_session ''s1'' 0 (Some 30000) (Some 0)]
   \<and> session_entries (sessions (fst (snd (in_then_out 0 30000))))
       = [(''Session 1'', True, ''In Progress'')]"
  by (simp add: flow_defs example_defs session_entries_def session_entry_def duration_cell_def
        truthy_number_def toString_1)

section \<open>Order and numbering of the list\<close>

text \<open>
  C9: for a signed-in user and a read the store answers, the query returns exactly the rows
  of the table that belong to the user and day, each as often as the table has it, in
  ascending \<open>check_in_time\<close>. The page shows one entry per returned session, in that
  order: the label of an entry is "Session" followed by its position in the list counted
  from 1, computed from the position alone (the row has no such column), and its icon and
  cell are those of the session at that position.
\<close>

theorem C9_ordered_sessions_positional_index:
  assumes "uid \<noteq> []"
  shows "sorted (map check_in_time (queryFn (Some uid) d False tbl))
   \<and> mset (queryFn (Some uid) d False tbl) = mset (filter (\<lambda>r. user_id r = uid \<and> date r = d) tbl)
   \<and> length (session_entries (queryFn (Some uid) d False tbl)) = length (queryFn (Some uid) d False tbl)
   \<and> map fst (session_entries (queryFn (Some uid) d False tbl))
       = map (\<lambda>i. ''Session '' @ toString (int i + 1)) [0..<length (queryFn (Some uid) d False tbl)]
   \<and> map (\<lambda>entry. fst (snd entry)) (session_entries (queryFn (Some uid) d False tbl))
       = map (\<lambda>s. check_out_time s \<noteq> None) (queryFn (Some uid) d False tbl)
   \<and> map (\<lambda>entry. snd (snd entry)) (session_entries (queryFn (Some uid) d False tbl))
       = map duration_cell (queryFn (Some uid) d False tbl)"
proof (intro conjI)
  show "sorted (map check_in_time (queryFn (Some uid) d False tbl))"
    by (simp add: queryFn_def select_sessions_def)
  show "mset (queryFn (Some uid) d False tbl) = mset (filter (\<lambda>r. user_id r = uid \<and> date r = d) tbl)"
    by (rule mset_queryFn [OF assms])
  show "length (session_entries (queryFn (Some uid) d False tbl)) = length (queryFn (Some uid) d False tbl)"
    by (simp add: session_entries_def)
  show "map fst (session_entries (queryFn (Some uid) d False tbl))
       = map (\<lambda>i. ''Session '' @ toString (int i + 1)) [0..<length (queryFn (Some uid) d False tbl)]"
    by (rule entries_labels)
  show "map (\<lambda>entry. fst (snd entry)) (session_entries (queryFn (Some uid) d False tbl))
       = map (\<lambda>s. check_out_time s \<noteq> None) (queryFn (Some uid) d False tbl)"
    by (rule entries_icons)
  show "map (\<lambda>entry. snd (snd entry)) (session_entries (queryFn (Some uid) d False tbl))
       = map duration_cell (queryFn (Some uid) d False tbl)"
    by (rule entries_cells)
qed

theorem C9_ordered_sessions_positional_index_witness:
  "queryFn (Some ''u1'') ''2026-01-11'' False
     [example_session ''s2'' 36000000 None None,
      (example_session ''s3'' 5 (Some 65000) (Some 1))\<lparr>date := ''2026-01-10''\<rparr>,
      (example_session ''s4'' 7 None None)\<lparr>user_id := ''u2''\<rparr>,
      example_session ''s1'' 32400000 (Some 34200000) (Some 30)]
   = [example_session ''s1'' 32400000 (Some 34200000) (Some 30), example_session ''s2'' 36000000 None None]
   \<and> session_entries (queryFn (Some ''u1'') ''2026-01-11'' False
     [example_session ''s2'' 36000000 None None,
      (example_session ''s3'' 5 (Some 65000) (Some 1))\<lparr>date := ''2026-01-10''\<rparr>,
      (example_session ''s4'' 7 None None)\<lparr>user_id := ''u2''\<rparr>,
      example_session ''s1'' 32400000 (Some 34200000) (Some 30)])
   = [(''Session 1'', True, ''0h 30m''), (''Session 2'', False, ''In Progress'')]"
  using C9_ordered_sessions_positional_index [of "''u1''" "''2026-01-11''"
     "[example_session ''s2'' 36000000 None None,
      (example_session ''s3'' 5 (Some 65000) (Some 1))\<lparr>date := ''2026-01-10''\<rparr>,
      (example_session ''s4'' 7 None None)\<lparr>user_id := ''u2''\<rparr>,
      example_session ''s1'' 32400000 (Some 34200000) (Some 30)]"]
  by (simp add: queryFn_def select_sessions_def example_session_def session_entries_def
        session_entry_def duration_cell_def truthy_number_def js_rem_def toString_def
        nat_digits_lt10 nat_digits_ge10 digit_char_def)

section \<open>The stored duration\<close>

text \<open>
  C1, as the handler computes it: a confirmed check-out of the active session stores
  \<open>check_out_time\<close> = the reading of \<open>new Date()\<close> and \<open>duration_minutes\<close> =
  floor((now - check_in_time) / 60,000 ms), where now is the reading of \<open>Date.now()\<close> taken
  just before and check_in_time is the check-in instant of the active session. When the two
  readings agree this is floor((check_out_time - check_in_time) / 60 s). Nothing clamps the
  value: it is at least 0 exactly when now is not before check_in_time.
\<close>

theorem C1_stored_duration:
  assumes "\<not> falsy_string (auth_user e)" and "\<not> falsy_string (capturedImage c)"
    and "captureType c = check_out" and "activeSession (sessions c) = Some a"
    and "\<not> write_error e"
  shows "(\<forall>r \<in> set (snd (snd (confirmPhoto e (c, tbl)))). session_id r = session_id a \<longrightarrow>
            check_out_time r = Some (new_date e)
            \<and> duration_minutes r = Some ((date_now e - check_in_time a) div 60000)
            \<and> (new_date e = date_now e \<and> check_in_time r = check_in_time a \<longrightarrow>
                 duration_minutes r = map_option (\<lambda>out. (out - check_in_time r) div 60000) (check_out_time r)))
         \<and> ((0 \<le> (date_now e - check_in_time a) div 60000) = (check_in_time a \<le> date_now e))"
  using assms
  by (auto simp add: confirmPhoto_check_out update_session_def close_session_def floor_minutes_nonneg)

theorem C1_stored_duration_witness:
  "\<not> falsy_string (auth_user (example_env ''s2'' 125000))
   \<and> \<not> falsy_string (capturedImage (example_tracker check_out [example_session ''s1'' 0 None None]))
   \<and> captureType (example_tracker check_out [example_session ''s1'' 0 None None]) = check_out
   \<and> activeSession (sessions (example_tracker check_out [example_session ''s1'' 0 None None]))
       = Some (example_session ''s1'' 0 None None)
   \<and> \<not> write_error (example_env ''s2'' 125000)
   \<and> map (\<lambda>r. (session_id r, check_in_time r, check_out_time r, duration_minutes r))
        (snd (snd (confirmPhoto (example_env ''s2'' 125000)
           (example_tracker check_out [example_session ''s1'' 0 None None], [example_session ''s1'' 0 None None]))))
       = [(''s1'', 0, Some 125000, Some 2)]"
  using C1_stored_duration [of "example_env ''s2'' 125000"
          "example_tracker check_out [example_session ''s1'' 0 None None]"
          "example_session ''s1'' 0 None None" "[example_session ''s1'' 0 None None]"]
  by (simp add: flow_defs example_defs)

text \<open>
  A check-in at 120 s followed by a check-out when the clock reads 0 stores -2 minutes; a
  check-out whose two clock readings are 59,999 and 60,000 stores 0 minutes for a session of
  one full minute.
\<close>

theorem C1_negative_duration_counterexample:
  "snd (snd (in_then_out 120000 0)) = [example_session ''s1'' 120000 (Some 0) (Some (- 2))]
   \<and> snd (snd (confirmPhoto ((example_env ''s2'' 59999)\<lparr>new_date := 60000\<rparr>)
          (example_tracker check_out [example_session ''s1'' 0 None None],
           [example_session ''s1'' 0 None None])))
       = [example_session ''s1'' 0 (Some 60000) (Some 0)]"
  by (simp add: flow_defs example_defs)

section \<open>Check-out instant and check-in instant\<close>

text \<open>
  C8, as the code has it: neither the handler nor the table compares the two instants. When
  the clock reading stored at a check-out is strictly later than every check-in instant in the
  table, a table in which each present \<open>check_out_time\<close> is strictly after its
  \<open>check_in_time\<close> stays so through \<open>confirmPhoto\<close>.
\<close>

theorem C8_check_out_after_check_in:
  assumes "\<forall>r \<in> set tbl. check_in_time r < new_date e"
    and "\<forall>r \<in> set tbl. \<forall>out. check_out_time r = Some out \<longrightarrow> check_in_time r < out"
  shows "\<forall>r \<in> set (snd (snd (confirmPhoto e (c, tbl)))).
           \<forall>out. check_out_time r = Some out \<longrightarrow> check_in_time r < out"
  using assms confirmPhoto_table_cases [of e c tbl]
  by (auto simp add: insert_session_def update_session_def close_session_def split: if_splits)

theorem C8_check_out_after_check_in_witness:
  "map (\<lambda>r. (check_in_time r, check_out_time r))
     (snd (snd (confirmPhoto (example_env ''s2'' 60000)
        (example_tracker check_out [example_session ''s1'' 0 None None], [example_session ''s1'' 0 None None]))))
     = [(0, Some 60000)]
   \<and> check_in_time (example_session ''s1'' 0 None None) < new_date (example_env ''s2'' 60000)"
  using C8_check_out_after_check_in [of "[example_session ''s1'' 0 None None]" "example_env ''s2'' 60000"
          "example_tracker check_out [example_session ''s1'' 0 None None]"]
  by (simp add: flow_defs example_defs)

text \<open>A check-in at 60 s and a check-out when the clock reads 30 s: the row closes before it opens.\<close>

theorem C8_check_out_before_check_in_counterexample:
  "snd (snd (in_then_out 60000 30000)) = [example_session ''s1'' 60000 (Some 30000) (Some (- 1))]"
  by (simp add: flow_defs example_defs)

section \<open>A write the store refuses\<close>

text \<open>
  C5: when the store answers the write of a check-in or check-out with an error, the table and
  the component (its session list, hence whether it is checked in, and the captured photo
  and operation) are as before, the failure toast is shown whenever the handler reached the
  write, and confirming again behaves as it would have from the state before.
\<close>

theorem C5_failed_write_keeps_state:
  assumes "write_error e"
  shows "snd (confirmPhoto e (c, tbl)) = (c, tbl)
         \<and> isCheckedIn (sessions (fst (snd (confirmPhoto e (c, tbl))))) = isCheckedIn (sessions c)
         \<and> (\<not> falsy_string (auth_user e) \<and> \<not> falsy_string (capturedImage c)
              \<and> (captureType c = check_in \<or> activeSession (sessions c) \<noteq> None)
              \<longrightarrow> fst (confirmPhoto e (c, tbl)) = Some (toast_error ''Failed to save attendance''))
         \<and> confirmPhoto e' (snd (confirmPhoto e (c, tbl))) = confirmPhoto e' (c, tbl)"
  using assms
  by (auto simp add: confirmPhoto_def Let_def split: capture_type.splits option.splits)

theorem C5_failed_write_keeps_state_witness:
  "write_error ((example_env ''s2'' 60000)\<lparr>write_error := True\<rparr>)
   \<and> confirmPhoto ((example_env ''s2'' 60000)\<lparr>write_error := True\<rparr>)
        (example_tracker check_out [example_session ''s1'' 0 None None], [example_session ''s1'' 0 None None])
       = (Some (toast_error ''Failed to save attendance''),
          example_tracker check_out [example_session ''s1'' 0 None None], [example_session ''s1'' 0 None None])
   \<and> fst (confirmPhoto (example_env ''s2'' 61000)
        (snd (confirmPhoto ((example_env ''s2'' 60000)\<lparr>write_error := True\<rparr>)
           (example_tracker check_out [example_session ''s1'' 0 None None], [example_session ''s1'' 0 None None]))))
       = Some (toast_success ''Checked out successfully!'')"
  using C5_failed_write_keeps_state [of "(example_env ''s2'' 60000)\<lparr>write_error := True\<rparr>"
          "example_tracker check_out [example_session ''s1'' 0 None None]"
          "[example_session ''s1'' 0 None None]" "example_env ''s2'' 61000"]
  by (simp add: flow_defs example_defs)

section \<open>The daily total\<close>

text \<open>
  C3, as the reducer computes it: \<open>totalMinutes\<close> is the sum of \<open>duration_minutes\<close> over
  the sessions with a stored duration other than 0 plus, for each open session without one,
  floor((now - check_in_time) / 60,000 ms); for a list whose open sessions carry no stored
  duration this is the sum of \<open>duration_minutes\<close> over the closed sessions plus the live
  minutes of each open session. It is shown as hours = floor(total / 60) and minutes =
  total % 60: for a total of at least 0 these are total div 60 and total mod 60, for a
  negative total the minutes are -((-total) mod 60). Two closed sessions of 30 and 45
  minutes give 75 minutes, shown as 1h 15m.
\<close>

theorem C3_daily_total:
  "totalMinutes now ss =
       sum_list (map (\<lambda>s. case duration_minutes s of Some d \<Rightarrow> d | None \<Rightarrow> 0)
                  (filter (\<lambda>s. truthy_number (duration_minutes s)) ss))
     + sum_list (map (\<lambda>s. (now - check_in_time s) div 60000)
                  (filter (\<lambda>s. \<not> truthy_number (duration_minutes s) \<and> check_out_time s = None) ss))
   \<and> ((\<forall>s \<in> set ss. check_out_time s = None \<longrightarrow> duration_minutes s = None) \<longrightarrow>
        totalMinutes now ss =
            sum_list (map (\<lambda>s. case duration_minutes s of Some d \<Rightarrow> d | None \<Rightarrow> 0)
                       (filter (\<lambda>s. check_out_time s \<noteq> None) ss))
          + sum_list (map (\<lambda>s. (now - check_in_time s) div 60000)
                       (filter (\<lambda>s. check_out_time s = None) ss)))
   \<and> todays_total now ss =
        toString (totalMinutes now ss div 60) @ ''h '' @
        toString (if 0 \<le> totalMinutes now ss then totalMinutes now ss mod 60
                  else - ((- totalMinutes now ss) mod 60)) @ ''m''
   \<and> (0 \<le> totalMinutes now ss \<longrightarrow>
        totalHours now ss = totalMinutes now ss div 60
        \<and> remainingMinutes now ss = totalMinutes now ss mod 60
        \<and> 60 * totalHours now ss + remainingMinutes now ss = totalMinutes now ss)
   \<and> totalMinutes now [example_session ''s1'' 32400000 (Some 34200000) (Some 30),
                       example_session ''s2'' 36000000 (Some 38700000) (Some 45)] = 75
   \<and> todays_total now [example_session ''s1'' 32400000 (Some 34200000) (Some 30),
                       example_session ''s2'' 36000000 (Some 38700000) (Some 45)] = ''1h 15m''"
proof (intro conjI impI)
  show "totalMinutes now ss =
       sum_list (map (\<lambda>s. case duration_minutes s of Some d \<Rightarrow> d | None \<Rightarrow> 0)
                  (filter (\<lambda>s. truthy_number (duration_minutes s)) ss))
     + sum_list (map (\<lambda>s. (now - check_in_time s) div 60000)
                  (filter (\<lambda>s. \<not> truthy_number (duration_minutes s) \<and> check_out_time s = None) ss))"
    using total_split_general [of now ss] by (simp add: totalMinutes_def foldl_total_step)
  show "todays_total now ss =
        toString (totalMinutes now ss div 60) @ ''h '' @
        toString (if 0 \<le> totalMinutes now ss then totalMinutes now ss mod 60
                  else - ((- totalMinutes now ss) mod 60)) @ ''m''"
    by (simp add: todays_total_def totalHours_def remainingMinutes_def js_rem_nonneg js_rem_neg)
  have t: "totalMinutes now [example_session ''s1'' 32400000 (Some 34200000) (Some 30),
                           example_session ''s2'' 36000000 (Some 38700000) (Some 45)] = 75"
    by (simp add: totalMinutes_def total_step_def truthy_number_def example_session_def)
  show "totalMinutes now [example_session ''s1'' 32400000 (Some 34200000) (Some 30),
                           example_session ''s2'' 36000000 (Some 38700000) (Some 45)] = 75"
    by (rule t)
  show "todays_total now [example_session ''s1'' 32400000 (Some 34200000) (Some 30),
                           example_session ''s2'' 36000000 (Some 38700000) (Some 45)] = ''1h 15m''"
    by (simp add: todays_total_def totalHours_def remainingMinutes_def t js_rem_def toString_def
          nat_digits_lt10 nat_digits_ge10 digit_char_def)
next
  assume "\<forall>s \<in> set ss. check_out_time s = None \<longrightarrow> duration_minutes s = None"
  from total_split [OF this, of now]
  show "totalMinutes now ss =
            sum_list (map (\<lambda>s. case duration_minutes s of Some d \<Rightarrow> d | None \<Rightarrow> 0)
                       (filter (\<lambda>s. check_out_time s \<noteq> None) ss))
          + sum_list (map (\<lambda>s. (now - check_in_time s) div 60000)
                       (filter (\<lambda>s. check_out_time s = None) ss))"
    by (simp add: totalMinutes_def foldl_total_step)
next
  assume nn: "0 \<le> totalMinutes now ss"
  show "totalHours now ss = totalMinutes now ss div 60"
    by (simp add: totalHours_def)
  from nn show "remainingMinutes now ss = totalMinutes now ss mod 60"
    by (simp add: remainingMinutes_def js_rem_nonneg)
  from nn show "60 * totalHours now ss + remainingMinutes now ss = totalMinutes now ss"
    by (simp add: totalHours_def remainingMinutes_def js_rem_nonneg)
qed

theorem C3_daily_total_witness:
  "totalMinutes 7500000 [example_session ''s1'' 0 (Some 1800000) (Some 30), example_session ''s2'' 3600000 None None] = 95
   \<and> 0 \<le> totalMinutes 7500000 [example_session ''s1'' 0 (Some 1800000) (Some 30), example_session ''s2'' 3600000 None None]
   \<and> totalHours 7500000 [example_session ''s1'' 0 (Some 1800000) (Some 30), example_session ''s2'' 3600000 None None] = 1
   \<and> remainingMinutes 7500000 [example_session ''s1'' 0 (Some 1800000) (Some 30), example_session ''s2'' 3600000 None None] = 35
   \<and> todays_total 7500000 [example_session ''s1'' 0 (Some 1800000) (Some 30), example_session ''s2'' 3600000 None None] = ''1h 35m''"
  using C3_daily_total [of 7500000 "[example_session ''s1'' 0 (Some 1800000) (Some 30), example_session ''s2'' 3600000 None None]"]
  by (simp add: example_session_def totalMinutes_def total_step_def truthy_number_def
        totalHours_def remainingMinutes_def js_rem_def todays_total_def toString_def
        nat_digits_lt10 nat_digits_ge10 digit_char_def)

text \<open>
  The list left by a check-in at 120 s and a check-out when the clock reads 0 holds one closed
  session of -2 minutes: the total is -2 and the page shows -1h -2m, where -2 mod 60 is 58.
\<close>

theorem C3_negative_total_counterexample:
  "sessions (fst (snd (in_then_out 120000 0))) = [example_session ''s1'' 120000 (Some 0) (Some (- 2))]
   \<and> totalMinutes 0 (sessions (fst (snd (in_then_out 120000 0)))) = - 2
   \<and> totalHours 0 (sessions (fst (snd (in_then_out 120000 0)))) = - 1
   \<and> remainingMinutes 0 (sessions (fst (snd (in_then_out 120000 0)))) = - 2
   \<and> (- 2 :: int) mod 60 = 58
   \<and> todays_total 0 (sessions (fst (snd (in_then_out 120000 0)))) = ''-1h -2m''"
  by (simp add: flow_defs example_defs totalMinutes_def total_step_def truthy_number_def
        totalHours_def remainingMinutes_def js_rem_def todays_total_def toString_def
        nat_digits_lt10 digit_char_def)

section \<open>Check-in while a session is open\<close>

text \<open>
  C2, as the code has it: \<open>confirmPhoto\<close> has no guard on a check-in. With a user and a
  photo present and the write confirmed, it inserts a new open session and reports success,
  whatever the table holds, so the number of open sessions of the user and day grows by one.
  The only gate is the button, which asks for a check-out instead when the cached list has
  an open session: when the cached list is the table's list of the user and day, and that
  holds at most one open session, it still holds at most one after the button and
  \<open>confirmPhoto\<close>.
\<close>

theorem C2_check_in_gated_by_button_only:
  assumes "auth_user e = Some uid" and "uid \<noteq> []"
  shows "(\<not> falsy_string (capturedImage c) \<and> captureType c = check_in \<and> \<not> write_error e \<longrightarrow>
            fst (confirmPhoto e (c, tbl)) = Some (toast_success ''Checked in successfully!'')
            \<and> snd (snd (confirmPhoto e (c, tbl))) = insert_session e uid (capturedImage c) tbl
            \<and> length (open_sessions uid (today e) (snd (snd (confirmPhoto e (c, tbl)))))
                = Suc (length (open_sessions uid (today e) tbl)))
         \<and> (sessions c = select_sessions uid (today e) tbl
              \<and> length (open_sessions uid (today e) tbl) \<le> 1 \<longrightarrow>
            length (open_sessions uid (today e) (snd (snd (press_and_confirm e imageData (c, tbl))))) \<le> 1)"
proof (intro conjI impI)
  assume h: "\<not> falsy_string (capturedImage c) \<and> captureType c = check_in \<and> \<not> write_error e"
  then have eq: "confirmPhoto e (c, tbl) =
           (Some (toast_success ''Checked in successfully!''),
            saved e c (insert_session e uid (capturedImage c) tbl),
            insert_session e uid (capturedImage c) tbl)"
    using confirmPhoto_check_in [OF assms] by simp
  show "fst (confirmPhoto e (c, tbl)) = Some (toast_success ''Checked in successfully!'')"
    by (simp add: eq)
  show "snd (snd (confirmPhoto e (c, tbl))) = insert_session e uid (capturedImage c) tbl"
    by (simp add: eq)
  show "length (open_sessions uid (today e) (snd (snd (confirmPhoto e (c, tbl)))))
          = Suc (length (open_sessions uid (today e) tbl))"
    by (simp add: eq open_sessions_insert)
next
  assume h: "sessions c = select_sessions uid (today e) tbl
              \<and> length (open_sessions uid (today e) tbl) \<le> 1"
  let ?c1 = "capturePhoto imageData (attendance_button c)"
  have pc: "press_and_confirm e imageData (c, tbl) = confirmPhoto e (?c1, tbl)"
    by (simp add: press_and_confirm_def)
  show "length (open_sessions uid (today e) (snd (snd (press_and_confirm e imageData (c, tbl))))) \<le> 1"
  proof (cases "isCheckedIn (sessions c)")
    case True
    then have "captureType ?c1 = check_out" by (simp add: button_capture)
    from confirmPhoto_table_check_out [OF this, of e tbl]
    consider "snd (snd (confirmPhoto e (?c1, tbl))) = tbl"
      | sid out photo dur where
          "snd (snd (confirmPhoto e (?c1, tbl))) = update_session sid out photo dur tbl"
      by blast
    then show ?thesis
    proof cases
      case 1
      then show ?thesis using h by (simp add: pc)
    next
      case 2
      have "length (open_sessions uid (today e) (update_session sid out photo dur tbl))
              \<le> length (open_sessions uid (today e) tbl)"
        by (rule open_sessions_update_le)
      then show ?thesis using h 2 by (simp add: pc)
    qed
  next
    case False
    then have none: "open_sessions uid (today e) tbl = []"
      using h active_none_iff [of uid "today e" tbl] by (simp add: isCheckedIn_def)
    from False have "captureType ?c1 = check_in" by (simp add: button_capture)
    from confirmPhoto_table_check_in [OF this assms(1), of tbl] show ?thesis
      by (auto simp add: pc none open_sessions_insert)
  qed
qed

theorem C2_check_in_gated_by_button_only_witness:
  "length (open_sessions ''u1'' ''2026-01-11''
     (snd (snd (confirmPhoto (example_env ''s1'' 0) (example_tracker check_in [], []))))) = 1
   \<and> length (open_sessions ''u1'' ''2026-01-11''
     (snd (snd (press_and_confirm (example_env ''s2'' 60000) (Some ''out.jpg'')
        (example_tracker check_in [example_session ''s1'' 0 None None], [example_session ''s1'' 0 None None]))))) = 0"
  using C2_check_in_gated_by_button_only [of "example_env ''s1'' 0" "''u1''" "example_tracker check_in []" "[]"]
    C2_check_in_gated_by_button_only [of "example_env ''s2'' 60000" "''u1''"
      "example_tracker check_in [example_session ''s1'' 0 None None]" "[example_session ''s1'' 0 None None]"
      "Some ''out.jpg''"]
  by (simp add: flow_defs example_defs open_sessions_def)

text \<open>
  A page whose list is still the initial empty one, on a table that already holds an open
  session of the user and day: the button offers the check-in, it succeeds, and two sessions
  are open.
\<close>

theorem C2_second_open_session_counterexample:
  "fst (press_and_confirm (example_env ''s2'' 60000) (Some ''in.jpg'')
          (fst day_start, [example_session ''s1'' 0 None None]))
     = Some (toast_success ''Checked in successfully!'')
   \<and> snd (snd (press_and_confirm (example_env ''s2'' 60000) (Some ''in.jpg'')
          (fst day_start, [example_session ''s1'' 0 None None])))
     = [example_session ''s1'' 0 None None, example_session ''s2'' 60000 None None]"
  by (simp add: flow_defs example_defs)

section \<open>Which session a check-out closes\<close>

text \<open>
  C10: with identifiers unique in the table (the primary key) and the cached list being the
  table's list of the user and day, a confirmed check-out while at least one session is open
  (in particular, more than one) changes exactly one row: the active session, which is open
  and whose \<open>check_in_time\<close> is least among the open sessions of the user and day. That
  row gets \<open>check_out_time\<close>, \<open>check_out_photo\<close> and \<open>duration_minutes\<close>; every
  other row, open or closed, is as before.
\<close>

theorem C10_check_out_closes_earliest_open_session_only:
  assumes "distinct (map session_id tbl)"
    and "sessions c = select_sessions uid (today e) tbl"
    and "open_sessions uid (today e) tbl \<noteq> []"
    and "\<not> falsy_string (auth_user e)" and "\<not> falsy_string (capturedImage c)"
    and "captureType c = check_out" and "\<not> write_error e"
  shows "\<exists>i<length tbl.
           activeSession (sessions c) = Some (tbl ! i)
           \<and> tbl ! i \<in> set (open_sessions uid (today e) tbl)
           \<and> (\<forall>s \<in> set (open_sessions uid (today e) tbl). check_in_time (tbl ! i) \<le> check_in_time s)
           \<and> snd (snd (confirmPhoto e (c, tbl))) =
               tbl[i := (tbl ! i)\<lparr>check_out_time := Some (new_date e),
                                  check_out_photo := capturedImage c,
                                  duration_minutes := Some ((date_now e - check_in_time (tbl ! i)) div 60000)\<rparr>]"
proof -
  from assms(3) obtain a where a: "activeSession (sessions c) = Some a"
    using active_none_iff [of uid "today e" tbl] assms(2) by (cases "activeSession (sessions c)") auto
  have srt: "sorted (map check_in_time (sessions c))"
    by (simp add: assms(2) select_sessions_def)
  from active_first_open [OF srt a]
  have mem: "a \<in> set (sessions c)" and opn: "check_out_time a = None"
    and least: "\<forall>s \<in> set (sessions c). check_out_time s = None \<longrightarrow> check_in_time a \<le> check_in_time s"
    by auto
  from mem have intbl: "a \<in> set tbl" and own: "user_id a = uid" "date a = today e"
    by (auto simp add: assms(2) select_sessions_def)
  then obtain i where i: "i < length tbl" "tbl ! i = a"
    by (auto simp add: in_set_conv_nth)
  have open_a: "tbl ! i \<in> set (open_sessions uid (today e) tbl)"
    using intbl own opn i by (simp add: open_sessions_def)
  have least': "\<forall>s \<in> set (open_sessions uid (today e) tbl). check_in_time (tbl ! i) \<le> check_in_time s"
    using least i by (auto simp add: assms(2) select_sessions_def open_sessions_def)
  have "snd (snd (confirmPhoto e (c, tbl))) =
          update_session (session_id (tbl ! i)) (new_date e) (capturedImage c)
            ((date_now e - check_in_time (tbl ! i)) div 60000) tbl"
    using confirmPhoto_check_out [OF assms(4) assms(5) assms(6) a assms(7)] i by simp
  also have "\<dots> = tbl[i := close_session (new_date e) (capturedImage c)
                        ((date_now e - check_in_time (tbl ! i)) div 60000) (tbl ! i)]"
    by (rule update_session_distinct [OF assms(1) i(1)])
  finally have upd: "snd (snd (confirmPhoto e (c, tbl))) =
               tbl[i := (tbl ! i)\<lparr>check_out_time := Some (new_date e),
                                  check_out_photo := capturedImage c,
                                  duration_minutes := Some ((date_now e - check_in_time (tbl ! i)) div 60000)\<rparr>]"
    by (simp add: close_session_def)
  show ?thesis using i a open_a least' upd by blast
qed


theorem C10_check_out_closes_earliest_open_session_only_witness:
  "map (\<lambda>r. (session_id r, check_in_time r, check_out_time r, duration_minutes r))
     (snd (snd (confirmPhoto (example_env ''s3'' 120000)
        (example_tracker check_out [example_session ''s1'' 0 None None, example_session ''s2'' 60000 None None],
         [example_session ''s2'' 60000 None None, example_session ''s1'' 0 None None]))))
   = [(''s2'', 60000, None, None), (''s1'', 0, Some 120000, Some 2)]"
  using C10_check_out_closes_earliest_open_session_only
          [of "[example_session ''s2'' 60000 None None, example_session ''s1'' 0 None None]"
              "example_tracker check_out [example_session ''s1'' 0 None None, example_session ''s2'' 60000 None None]"
              "''u1''" "example_env ''s3'' 120000"]
  by (simp add: flow_defs example_defs open_sessions_def)


end
